theory Spec2Isabelle
  imports Main
begin

section \<open>Effects\<close>

text \<open>
  The scripts are sequential. What they do to the outside world is recorded as a list of
  effects, in program order: a call of \<open>requests.get\<close>, a call of
  \<open>client.models.generate_content\<close>, a \<open>time.sleep\<close> with its delay in seconds, the
  writing of a text file (name and content) and the writing of the spreadsheet. Console
  output is not an effect of this list; \<open>load_links\<close>, whose warning a property below is
  about, returns what it prints.
\<close>

datatype 'f effect =
    HttpGet string
  | Generate bool
  | Sleep nat
  | WriteText string string
  | WriteExcel string 'f

section \<open>The retrying inference caller (main.py, call\_model\_with\_retries)\<close>

text \<open>
  The exception raised by \<open>generate_content\<close> is inspected in two places only. The
  outcome of \<open>int(x)\<close> is either an integer or an exception of its own, which the inner
  \<open>try\<close> turns into \<open>status = None\<close>.
  \<^item> \<open>code_attr\<close>: \<open>None\<close> when \<open>hasattr(e, 'code')\<close> is false, otherwise the outcome of
    \<open>int(e.code)\<close>;
  \<^item> \<open>args_code\<close>: \<open>None\<close> when \<open>e.args\<close> is empty, or \<open>e.args[0]\<close> is not a dict, or
    has no key \<open>'error'\<close>; otherwise the outcome of
    \<open>int(e.args[0]['error'].get('code', 0))\<close>.
\<close>

datatype int_outcome = IntOf int | IntRaises

record api_error =
  code_attr :: "int_outcome option"
  args_code :: "int_outcome option"

definition extract_status :: "api_error \<Rightarrow> int option" where
  "extract_status e =
     (case code_attr e of
        Some (IntOf n) \<Rightarrow> Some n
      | Some IntRaises \<Rightarrow> None
      | None \<Rightarrow>
          (case args_code e of
             Some (IntOf n) \<Rightarrow> Some n
           | Some IntRaises \<Rightarrow> None
           | None \<Rightarrow> None))"

definition TRANSIENT_STATUS :: "int set" where
  "TRANSIENT_STATUS = {429, 500, 502, 503, 504}"

definition is_transient :: "api_error \<Rightarrow> bool" where
  "is_transient e = (case extract_status e of None \<Rightarrow> False | Some n \<Rightarrow> n \<in> TRANSIENT_STATUS)"

text \<open>
  One call of \<open>generate_content\<close> returns a response or raises. The response is
  represented by its \<open>text\<close> attribute (\<open>None\<close> when the attribute is missing or is
  \<open>None\<close>). The world decides the outcome of the call made at each attempt number.
\<close>

datatype ('e, 'r) outcome = Returns 'r | Raises 'e

text \<open>
  The result of a retry loop: the value returned, the exception that left the function,
  or \<open>FellThrough\<close> when the \<open>for\<close> loop ends without either (the function then returns
  \<open>None\<close>; this happens only for \<open>max_retries = 0\<close>).
\<close>

datatype ('e, 'r) result = Returned 'r | Raised 'e | FellThrough

text \<open>
  \<open>for attempt in range(1, max_retries + 1)\<close>: the third argument counts the iterations
  that are left, \<open>attempt\<close> and \<open>delay\<close> are the loop's variables.
\<close>

fun call_model_loop ::
  "(nat \<Rightarrow> (api_error, 'r) outcome) \<Rightarrow> bool \<Rightarrow> nat \<Rightarrow> nat \<Rightarrow> nat \<Rightarrow> nat
     \<Rightarrow> (api_error, 'r) result \<times> 'f effect list" where
  "call_model_loop gen strict max_retries 0 attempt delay = (FellThrough, [])"
| "call_model_loop gen strict max_retries (Suc left) attempt delay =
     (case gen attempt of
        Returns resp \<Rightarrow> (Returned resp, [Generate strict])
      | Raises e \<Rightarrow>
          if \<not> is_transient e \<or> attempt = max_retries then (Raised e, [Generate strict])
          else
            (case call_model_loop gen strict max_retries left (attempt + 1) (delay * 2) of
               (res, effs) \<Rightarrow> (res, Generate strict # Sleep delay # effs)))"

definition call_model_with_retries ::
  "(nat \<Rightarrow> (api_error, 'r) outcome) \<Rightarrow> bool \<Rightarrow> nat \<Rightarrow> nat
     \<Rightarrow> (api_error, 'r) result \<times> 'f effect list" where
  "call_model_with_retries gen strict max_retries initial_delay =
     call_model_loop gen strict max_retries max_retries 1 initial_delay"

text \<open>
  An attempt ends the loop when it returns, or raises an error that is not retried.
\<close>

definition call_stops :: "(nat \<Rightarrow> (api_error, 'r) outcome) \<Rightarrow> nat \<Rightarrow> nat \<Rightarrow> bool" where
  "call_stops gen max_retries a =
     (case gen a of
        Returns resp \<Rightarrow> True
      | Raises e \<Rightarrow> extract_status e \<notin> Some ` {429, 500, 502, 503, 504} \<or> a = max_retries)"

definition result_of :: "('e, 'r) outcome \<Rightarrow> ('e, 'r) result" where
  "result_of out = (case out of Returns resp \<Rightarrow> Returned resp | Raises e \<Rightarrow> Raised e)"

definition retried :: "bool \<Rightarrow> nat \<Rightarrow> nat \<Rightarrow> 'f effect list" where
  "retried strict delay n =
     concat (map (\<lambda>k. [Generate strict, Sleep (delay * 2 ^ k)]) [0..<n])"

section \<open>The retrying HTTP fetchers\<close>

text \<open>
  \<open>requests.get\<close> followed by \<open>raise_for_status\<close>. The exceptions of the
  \<open>requests\<close> library all derive from \<open>RequestException\<close>: those raised before
  anything is sent (\<open>MissingSchema\<close>, \<open>InvalidSchema\<close>, \<open>InvalidURL\<close>, for a URL
  that is malformed), those of the network (\<open>ConnectionError\<close>, \<open>Timeout\<close>,
  \<open>TooManyRedirects\<close>) and \<open>HTTPError\<close>, which \<open>raise_for_status\<close> raises for a
  status from 400 to 599. \<open>OtherException\<close> stands for an exception of any other class.
\<close>

datatype fetch_error =
    MissingSchema
  | InvalidSchema
  | InvalidURL
  | ConnectionError
  | Timeout
  | TooManyRedirects
  | HTTPError nat
  | OtherException

fun is_RequestException :: "fetch_error \<Rightarrow> bool" where
  "is_RequestException OtherException = False"
| "is_RequestException e = True"

record response =
  status_code :: nat
  content :: string

definition raise_for_status :: "response \<Rightarrow> (fetch_error, response) outcome" where
  "raise_for_status resp =
     (if 400 \<le> status_code resp \<and> status_code resp < 600
      then Raises (HTTPError (status_code resp)) else Returns resp)"

definition get_and_check ::
  "(fetch_error, response) outcome \<Rightarrow> (fetch_error, response) outcome" where
  "get_and_check out = (case out of Raises e \<Rightarrow> Raises e | Returns resp \<Rightarrow> raise_for_status resp)"

text \<open>
  main.py, \<open>fetch_page_with_retries(url, max_retries=4, timeout=30)\<close>. The world's
  \<open>get\<close> gives the outcome of \<open>requests.get\<close> at each attempt.
\<close>

fun main_fetch_loop ::
  "(nat \<Rightarrow> (fetch_error, response) outcome) \<Rightarrow> string \<Rightarrow> nat \<Rightarrow> nat \<Rightarrow> nat \<Rightarrow> nat
     \<Rightarrow> (fetch_error, response) result \<times> 'f effect list" where
  "main_fetch_loop get url max_retries 0 attempt delay = (FellThrough, [])"
| "main_fetch_loop get url max_retries (Suc left) attempt delay =
     (case get_and_check (get attempt) of
        Returns resp \<Rightarrow> (Returned resp, [HttpGet url])
      | Raises e \<Rightarrow>
          if \<not> is_RequestException e then (Raised e, [HttpGet url])
          else if attempt = max_retries then (Raised e, [HttpGet url])
          else
            (case main_fetch_loop get url max_retries left (attempt + 1) (delay * 2) of
               (res, effs) \<Rightarrow> (res, HttpGet url # Sleep delay # effs)))"

definition main_fetch_page_with_retries ::
  "(nat \<Rightarrow> (fetch_error, response) outcome) \<Rightarrow> string \<Rightarrow> nat
     \<Rightarrow> (fetch_error, response) result \<times> 'f effect list" where
  "main_fetch_page_with_retries get url max_retries =
     main_fetch_loop get url max_retries max_retries 1 2"

text \<open>
  link\_scraper.py, \<open>fetch_page_with_retries(url, max_retries=3, timeout=15)\<close>.
\<close>

fun scraper_fetch_loop ::
  "(nat \<Rightarrow> (fetch_error, response) outcome) \<Rightarrow> string \<Rightarrow> nat \<Rightarrow> nat \<Rightarrow> nat \<Rightarrow> nat
     \<Rightarrow> (fetch_error, response) result \<times> 'f effect list" where
  "scraper_fetch_loop get url max_retries 0 attempt delay = (FellThrough, [])"
| "scraper_fetch_loop get url max_retries (Suc left) attempt delay =
     (case get_and_check (get attempt) of
        Returns resp \<Rightarrow> (Returned resp, [HttpGet url])
      | Raises e \<Rightarrow>
          if \<not> is_RequestException e then (Raised e, [HttpGet url])
          else if attempt < max_retries then
            (case scraper_fetch_loop get url max_retries left (attempt + 1) (delay * 2) of
               (res, effs) \<Rightarrow> (res, HttpGet url # Sleep delay # effs))
          else (Raised e, [HttpGet url]))"

definition scraper_fetch_page_with_retries ::
  "(nat \<Rightarrow> (fetch_error, response) outcome) \<Rightarrow> string \<Rightarrow> nat
     \<Rightarrow> (fetch_error, response) result \<times> 'f effect list" where
  "scraper_fetch_page_with_retries get url max_retries =
     scraper_fetch_loop get url max_retries max_retries 1 1"

section \<open>Strings\<close>

text \<open>
  Python strings are modelled as lists of 8-bit characters. \<open>py_isspace\<close> is
  \<open>str.isspace\<close> on one character, which is also what \<open>\s\<close> matches in a \<open>str\<close>
  pattern: the code points 9 to 13, 28 to 32, 133 and 160 (of those below 256).
\<close>

definition py_isspace :: "char \<Rightarrow> bool" where
  "py_isspace c =
     (let n = (of_char c :: nat)
      in (9 \<le> n \<and> n \<le> 13) \<or> (28 \<le> n \<and> n \<le> 32) \<or> n = 133 \<or> n = 160)"

definition lstrip :: "(char \<Rightarrow> bool) \<Rightarrow> string \<Rightarrow> string" where
  "lstrip P s = dropWhile P s"

definition rstrip :: "(char \<Rightarrow> bool) \<Rightarrow> string \<Rightarrow> string" where
  "rstrip P s = rev (dropWhile P (rev s))"

definition strip :: "string \<Rightarrow> string" where
  "strip s = rstrip py_isspace (lstrip py_isspace s)"

definition startswith :: "string \<Rightarrow> string \<Rightarrow> bool" where
  "startswith s p = (take (length p) s = p)"

text \<open>\<open>s.split(c)\<close> for a separator of one character, and \<open>c.join(parts)\<close>.\<close>

fun split_on :: "char \<Rightarrow> string \<Rightarrow> string list" where
  "split_on c [] = [[]]"
| "split_on c (x # xs) =
     (if x = c then [] # split_on c xs
      else (case split_on c xs of [] \<Rightarrow> [[x]] | p # ps \<Rightarrow> (x # p) # ps))"

fun join_with :: "char \<Rightarrow> string list \<Rightarrow> string" where
  "join_with c [] = []"
| "join_with c [p] = p"
| "join_with c (p # q # ps) = p @ c # join_with c (q # ps)"

text \<open>\<open>str(n)\<close> for a natural number.\<close>

definition digit_char :: "nat \<Rightarrow> char" where
  "digit_char d = char_of (48 + d)"

fun str_of_nat :: "nat \<Rightarrow> string" where
  "str_of_nat n = (if n < 10 then [digit_char n] else str_of_nat (n div 10) @ [digit_char (n mod 10)])"

section \<open>URL resolution (urllib.parse)\<close>

text \<open>
  \<open>extract_links\<close> calls \<open>urljoin\<close> and \<open>urlparse\<close> of the standard library. They are
  transcribed here from CPython 3.11 (\<open>Lib/urllib/parse.py\<close>) for \<open>str\<close> arguments
  and \<open>allow_fragments=True\<close>. \<open>None\<close> is the \<open>ValueError\<close> that \<open>urlsplit\<close> raises
  for a host with an unmatched square bracket; the further checks that \<open>urlsplit\<close>
  makes on a bracketed or non-ASCII host are left out.
\<close>

definition uses_relative :: "string list" where
  "uses_relative =
     ['''', ''ftp'', ''http'', ''gopher'', ''nntp'', ''imap'', ''wais'', ''file'', ''https'',
      ''shttp'', ''mms'', ''prospero'', ''rtsp'', ''rtspu'', ''sftp'', ''svn'', ''svn+ssh'',
      ''ws'', ''wss'']"

definition uses_netloc :: "string list" where
  "uses_netloc =
     ['''', ''ftp'', ''http'', ''gopher'', ''nntp'', ''telnet'', ''imap'', ''wais'', ''file'',
      ''mms'', ''https'', ''shttp'', ''snews'', ''prospero'', ''rtsp'', ''rtspu'', ''rsync'',
      ''svn'', ''svn+ssh'', ''sftp'', ''nfs'', ''git'', ''git+ssh'', ''ws'', ''wss'']"

definition uses_params :: "string list" where
  "uses_params =
     ['''', ''ftp'', ''hdl'', ''prospero'', ''http'', ''imap'', ''https'', ''shttp'', ''rtsp'',
      ''rtspu'', ''sip'', ''sips'', ''mms'', ''sftp'', ''tel'']"

definition is_ascii_alpha :: "char \<Rightarrow> bool" where
  "is_ascii_alpha c =
     (let n = (of_char c :: nat) in (65 \<le> n \<and> n \<le> 90) \<or> (97 \<le> n \<and> n \<le> 122))"

definition is_scheme_char :: "char \<Rightarrow> bool" where
  "is_scheme_char c =
     (let n = (of_char c :: nat)
      in (65 \<le> n \<and> n \<le> 90) \<or> (97 \<le> n \<and> n \<le> 122) \<or> (48 \<le> n \<and> n \<le> 57)
         \<or> c = CHR ''+'' \<or> c = CHR ''-'' \<or> c = CHR ''.'')"

definition ascii_lower :: "char \<Rightarrow> char" where
  "ascii_lower c =
     (let n = (of_char c :: nat) in if 65 \<le> n \<and> n \<le> 90 then char_of (n + 32) else c)"

definition is_c0_or_space :: "char \<Rightarrow> bool" where
  "is_c0_or_space c = ((of_char c :: nat) \<le> 32)"

definition is_unsafe_byte :: "char \<Rightarrow> bool" where
  "is_unsafe_byte c = ((of_char c :: nat) \<in> {9, 10, 13})"

text \<open>
  \<open>before c s\<close> is \<open>s[:i]\<close> and \<open>after c s\<close> is \<open>s[i+1:]\<close> for \<open>i = s.find(c)\<close>,
  when \<open>c\<close> occurs in \<open>s\<close>.
\<close>

definition before :: "char \<Rightarrow> string \<Rightarrow> string" where
  "before c s = takeWhile (\<lambda>x. x \<noteq> c) s"

definition after :: "char \<Rightarrow> string \<Rightarrow> string" where
  "after c s = drop 1 (dropWhile (\<lambda>x. x \<noteq> c) s)"

record url_parts =
  scheme :: string
  netloc :: string
  path :: string
  params :: string
  query :: string
  fragment :: string

definition split_scheme :: "string \<Rightarrow> string \<Rightarrow> string \<times> string" where
  "split_scheme url dflt =
     (let pre = before CHR '':'' url
      in if CHR '':'' \<in> set url \<and> pre \<noteq> [] \<and> is_ascii_alpha (hd pre) \<and> list_all is_scheme_char pre
         then (map ascii_lower pre, after CHR '':'' url)
         else (dflt, url))"

definition is_netloc_end :: "char \<Rightarrow> bool" where
  "is_netloc_end c = (c = CHR ''/'' \<or> c = CHR ''?'' \<or> c = CHR ''#'')"

definition splitnetloc :: "string \<Rightarrow> string \<times> string" where
  "splitnetloc url =
     (if take 2 url = ''//''
      then (takeWhile (\<lambda>c. \<not> is_netloc_end c) (drop 2 url),
            dropWhile (\<lambda>c. \<not> is_netloc_end c) (drop 2 url))
      else ('''', url))"

definition bracket_error :: "string \<Rightarrow> bool" where
  "bracket_error nl =
     ((CHR ''['' \<in> set nl \<and> CHR '']'' \<notin> set nl) \<or> (CHR '']'' \<in> set nl \<and> CHR ''['' \<notin> set nl))"

definition urlsplit :: "string \<Rightarrow> string \<Rightarrow> url_parts option" where
  "urlsplit url dflt =
     (let url1 = filter (\<lambda>c. \<not> is_unsafe_byte c) (lstrip is_c0_or_space url);
          dflt1 = filter (\<lambda>c. \<not> is_unsafe_byte c) (rstrip is_c0_or_space (lstrip is_c0_or_space dflt));
          (sch, url2) = split_scheme url1 dflt1;
          (nl, url3) = splitnetloc url2
      in if bracket_error nl then None
         else
           (let (url4, frag) =
                  (if CHR ''#'' \<in> set url3 then (before CHR ''#'' url3, after CHR ''#'' url3)
                   else (url3, ''''));
                (url5, qry) =
                  (if CHR ''?'' \<in> set url4 then (before CHR ''?'' url4, after CHR ''?'' url4)
                   else (url4, ''''))
            in Some \<lparr>scheme = sch, netloc = nl, path = url5, params = '''', query = qry,
                     fragment = frag\<rparr>))"

text \<open>\<open>_splitparams\<close>: the parameters follow the first \<open>;\<close> of the last path segment.\<close>

definition splitparams :: "string \<Rightarrow> string \<times> string" where
  "splitparams url =
     (let seg = rev (takeWhile (\<lambda>c. c \<noteq> CHR ''/'') (rev url));
          hd_part = take (length url - length seg) url
      in if CHR ''/'' \<in> set url \<and> CHR '';'' \<notin> set seg then (url, '''')
         else (hd_part @ before CHR '';'' seg, after CHR '';'' seg))"

definition urlparse :: "string \<Rightarrow> string \<Rightarrow> url_parts option" where
  "urlparse url dflt =
     (case urlsplit url dflt of
        None \<Rightarrow> None
      | Some r \<Rightarrow>
          if scheme r \<in> set uses_params \<and> CHR '';'' \<in> set (path r)
          then (case splitparams (path r) of (u, ps) \<Rightarrow> Some (r\<lparr>path := u, params := ps\<rparr>))
          else Some r)"

definition urlunparse :: "url_parts \<Rightarrow> string" where
  "urlunparse r =
     (let url = (if params r \<noteq> [] then path r @ '';'' @ params r else path r);
          url1 =
            (if netloc r \<noteq> [] \<or> (scheme r \<noteq> [] \<and> scheme r \<in> set uses_netloc \<and> take 2 url \<noteq> ''//'')
             then ''//'' @ netloc r @ (if url \<noteq> [] \<and> take 1 url \<noteq> ''/'' then ''/'' @ url else url)
             else url);
          url2 = (if scheme r \<noteq> [] then scheme r @ '':'' @ url1 else url1);
          url3 = (if query r \<noteq> [] then url2 @ ''?'' @ query r else url2)
      in if fragment r \<noteq> [] then url3 @ ''#'' @ fragment r else url3)"

text \<open>\<open>segments[1:-1] = filter(None, segments[1:-1])\<close>\<close>

definition squeeze :: "string list \<Rightarrow> string list" where
  "squeeze segs =
     (case segs of
        [] \<Rightarrow> []
      | [x] \<Rightarrow> [x]
      | x # rest \<Rightarrow> x # filter (\<lambda>seg. seg \<noteq> []) (butlast rest) @ [last rest])"

text \<open>The loop over \<open>segments\<close>; \<open>resolved_path.pop()\<close> on an empty list is ignored.\<close>

fun resolve_segments :: "string list \<Rightarrow> string list \<Rightarrow> string list" where
  "resolve_segments [] resolved_path = resolved_path"
| "resolve_segments (seg # segs) resolved_path =
     (if seg = ''..'' then resolve_segments segs (butlast resolved_path)
      else if seg = ''.'' then resolve_segments segs resolved_path
      else resolve_segments segs (resolved_path @ [seg]))"

definition join_path :: "string \<Rightarrow> string \<Rightarrow> string" where
  "join_path bpath p =
     (let base_parts0 = split_on CHR ''/'' bpath;
          base_parts = (if last base_parts0 \<noteq> [] then butlast base_parts0 else base_parts0);
          segments =
            (if take 1 p = ''/'' then split_on CHR ''/'' p
             else squeeze (base_parts @ split_on CHR ''/'' p));
          resolved0 = resolve_segments segments [];
          resolved = (if last segments = ''.'' \<or> last segments = ''..'' then resolved0 @ [[]] else resolved0);
          joined = join_with CHR ''/'' resolved
      in if joined = [] then ''/'' else joined)"

definition urljoin :: "string \<Rightarrow> string \<Rightarrow> string option" where
  "urljoin base url =
     (if base = [] then Some url
      else if url = [] then Some base
      else
        (case urlparse base '''' of
           None \<Rightarrow> None
         | Some b \<Rightarrow>
             (case urlparse url (scheme b) of
                None \<Rightarrow> None
              | Some u \<Rightarrow>
                  if scheme u \<noteq> scheme b \<or> scheme u \<notin> set uses_relative then Some url
                  else if scheme u \<in> set uses_netloc \<and> netloc u \<noteq> [] then Some (urlunparse u)
                  else
                    (let nl = (if scheme u \<in> set uses_netloc then netloc b else netloc u)
                     in if path u = [] \<and> params u = []
                        then Some (urlunparse (u\<lparr>netloc := nl, path := path b, params := params b,
                                     query := (if query u = [] then query b else query u)\<rparr>))
                        else Some (urlunparse (u\<lparr>netloc := nl, path := join_path (path b) (path u)\<rparr>))))))"

text \<open>
  The URLs of the resolution property: a scheme \<open>http\<close> or \<open>https\<close>, a host and path
  segments made of plain characters, that is, none of \<open>/ ? # : ; [ ]\<close>, no control
  character and no white space. \<open>path_of segs\<close> is the path \<open>/s1/s2/...\<close>.
\<close>

definition plain_char :: "char \<Rightarrow> bool" where
  "plain_char c =
     (c \<noteq> CHR ''/'' \<and> c \<noteq> CHR ''?'' \<and> c \<noteq> CHR ''#'' \<and> c \<noteq> CHR '':'' \<and> c \<noteq> CHR '';''
      \<and> c \<noteq> CHR ''['' \<and> c \<noteq> CHR '']'' \<and> \<not> is_c0_or_space c \<and> \<not> py_isspace c)"

definition plain_segment :: "string \<Rightarrow> bool" where
  "plain_segment s = (s \<noteq> [] \<and> s \<noteq> ''.'' \<and> s \<noteq> ''..'' \<and> list_all plain_char s)"

definition path_of :: "string list \<Rightarrow> string" where
  "path_of segs = concat (map (\<lambda>s. CHR ''/'' # s) segs)"

section \<open>The link extractor (link\_scraper.py, extract\_links)\<close>

text \<open>
  The libraries are parameters: \<open>find_hrefs\<close> gives the \<open>href\<close> attribute values of
  \<open>soup.find_all("a", href=True)\<close> in document order, \<open>join\<close> is \<open>urljoin\<close>, \<open>parse\<close>
  is \<open>urlparse\<close> with its default scheme, and \<open>filter_regex\<close>, when given, is
  \<open>re.search(filter_regex, _, re.IGNORECASE)\<close> as a test. \<open>None\<close> from \<open>join\<close>,
  \<open>parse\<close> or the test is an exception, which leaves \<open>extract_links\<close>.

  \<open>resolve_href\<close> is the loop body down to the filter: \<open>None\<close> when an exception is
  raised, \<open>Some None\<close> for \<open>continue\<close>, \<open>Some (Some abs_url)\<close> otherwise.
\<close>

definition resolve_href ::
  "(string \<Rightarrow> string \<Rightarrow> string option) \<Rightarrow> (string \<Rightarrow> url_parts option)
     \<Rightarrow> (string \<Rightarrow> bool option) option \<Rightarrow> string \<Rightarrow> string \<Rightarrow> string option option" where
  "resolve_href join parse filter_regex base_url a_href =
     (let href = strip a_href
      in if href = [] \<or> startswith href ''#'' \<or> href = [] then Some None
         else
           (case join (base_url @ ''/'') href of
              None \<Rightarrow> None
            | Some abs_url \<Rightarrow>
                (case parse abs_url of
                   None \<Rightarrow> None
                 | Some parsed \<Rightarrow>
                     if scheme parsed = [] \<or> netloc parsed = [] then Some None
                     else
                       (case filter_regex of
                          None \<Rightarrow> Some (Some abs_url)
                        | Some search \<Rightarrow>
                            (case search abs_url of
                               None \<Rightarrow> None
                             | Some found \<Rightarrow> if \<not> found then Some None else Some (Some abs_url))))))"

fun links_loop ::
  "(string \<Rightarrow> string option option) \<Rightarrow> string list \<Rightarrow> string set \<Rightarrow> string list
     \<Rightarrow> string list option" where
  "links_loop body [] seen ordered_links = Some ordered_links"
| "links_loop body (a_href # rest) seen ordered_links =
     (case body a_href of
        None \<Rightarrow> None
      | Some None \<Rightarrow> links_loop body rest seen ordered_links
      | Some (Some abs_url) \<Rightarrow>
          if abs_url \<notin> seen then links_loop body rest (insert abs_url seen) (ordered_links @ [abs_url])
          else links_loop body rest seen ordered_links)"

definition extract_links ::
  "(string \<Rightarrow> string list) \<Rightarrow> (string \<Rightarrow> string \<Rightarrow> string option) \<Rightarrow> (string \<Rightarrow> url_parts option)
     \<Rightarrow> string \<Rightarrow> response \<Rightarrow> (string \<Rightarrow> bool option) option \<Rightarrow> string list option" where
  "extract_links find_hrefs join parse url resp filter_regex =
     (let base_url = rstrip (\<lambda>c. c = CHR ''/'') url
      in links_loop (resolve_href join parse filter_regex base_url) (find_hrefs (content resp)) {} [])"

text \<open>
  What the properties compare the loop with: the absolute URLs that pass the loop body,
  in document order, and the first occurrences in a list.
\<close>

definition candidates :: "(string \<Rightarrow> string option option) \<Rightarrow> string list \<Rightarrow> string list" where
  "candidates body hrefs =
     concat (map (\<lambda>h. case body h of Some (Some abs_url) \<Rightarrow> [abs_url] | _ \<Rightarrow> []) hrefs)"

definition first_occurrences :: "'a list \<Rightarrow> 'a list" where
  "first_occurrences ys =
     map (\<lambda>i. ys ! i) (filter (\<lambda>i. ys ! i \<notin> set (take i ys)) [0..<length ys])"

text \<open>
  The same in recursive form, with the set of values already seen; used in the proofs.
\<close>

fun dedup :: "'a set \<Rightarrow> 'a list \<Rightarrow> 'a list" where
  "dedup seen [] = []"
| "dedup seen (y # ys) = (if y \<in> seen then dedup seen ys else y # dedup (insert y seen) ys)"

section \<open>JSON recovery (main.py, lines 218 to 238)\<close>

text \<open>
  The value that \<open>json.loads\<close> or \<open>json_repair.loads\<close> returns. The two parsers are
  libraries and are parameters of the model: a parser returns a value or raises, and
  \<open>json.JSONDecodeError\<close> is told apart from any other exception because the code
  catches only the former around \<open>json.loads\<close>.
\<close>

datatype json =
    JNull
  | JBool bool
  | JNum int
  | JStr string
  | JArr "json list"
  | JObj "(string \<times> json) list"

datatype parse_error = JSONDecodeError | OtherParseError

type_synonym parser = "string \<Rightarrow> parse_error + json"

text \<open>
  \<open>re.search(r"(\[\s*\{.*?\}\s*\])", raw_json_text, re.S)\<close>, and \<open>m.group(1)\<close> when
  there is a match. \<open>match_body\<close> matches \<open>.*?\}\s*\]\<close> at the start of its argument:
  the lazy \<open>.*?\<close> stops at the first \<open>}\<close> that is followed by white space and
  \<open>]\<close>. \<open>match_here\<close> matches the whole pattern at the start of its argument, and
  \<open>re_search\<close> tries every start from left to right.
\<close>

fun match_body :: "string \<Rightarrow> string option" where
  "match_body [] = None"
| "match_body (c # cs) =
     (if c = CHR ''}'' \<and> take 1 (dropWhile py_isspace cs) = '']''
      then Some (c # takeWhile py_isspace cs @ '']'')
      else map_option (\<lambda>m. c # m) (match_body cs))"

definition match_here :: "string \<Rightarrow> string option" where
  "match_here s =
     (if take 1 s = ''['' \<and> take 1 (dropWhile py_isspace (drop 1 s)) = ''{''
      then map_option (\<lambda>m. ''['' @ takeWhile py_isspace (drop 1 s) @ ''{'' @ m)
             (match_body (drop 1 (dropWhile py_isspace (drop 1 s))))
      else None)"

fun re_search :: "string \<Rightarrow> string option" where
  "re_search [] = None"
| "re_search (c # cs) =
     (case match_here (c # cs) of Some m \<Rightarrow> Some m | None \<Rightarrow> re_search cs)"

text \<open>Why the processing of one link fails: the exception that reaches line 248.\<close>

datatype link_error =
    FetchError fetch_error
  | InferenceError api_error
  | EmptyAfterRetry
  | EmptyResponse
  | ParserError parse_error
  | UnparsableJSON
  | ShapeError
  | AttributeError

definition debug_bad_json :: "nat \<Rightarrow> string" where
  "debug_bad_json idx = ''debug_bad_json_'' @ str_of_nat idx @ ''.txt''"

definition debug_empty_response :: "nat \<Rightarrow> string" where
  "debug_empty_response idx = ''debug_empty_response_'' @ str_of_nat idx @ ''.txt''"

text \<open>
  The nested \<open>try\<close> statements of lines 219 to 238; \<open>n\<close> is \<open>len(all_new_data)\<close>.
\<close>

definition recover_json ::
  "parser \<Rightarrow> parser \<Rightarrow> nat \<Rightarrow> string \<Rightarrow> (link_error + json) \<times> 'f effect list" where
  "recover_json json_loads json_repair_loads n raw_json_text =
     (case json_loads raw_json_text of
        Inr new_data \<Rightarrow> (Inr new_data, [])
      | Inl OtherParseError \<Rightarrow> (Inl (ParserError OtherParseError), [])
      | Inl JSONDecodeError \<Rightarrow>
          (case json_repair_loads raw_json_text of
             Inr new_data \<Rightarrow> (Inr new_data, [])
           | Inl e1 \<Rightarrow>
               (case re_search raw_json_text of
                  Some group1 \<Rightarrow>
                    (case json_loads group1 of
                       Inr new_data \<Rightarrow> (Inr new_data, [])
                     | Inl OtherParseError \<Rightarrow> (Inl (ParserError OtherParseError), [])
                     | Inl JSONDecodeError \<Rightarrow>
                         (case json_repair_loads group1 of
                            Inr new_data \<Rightarrow> (Inr new_data, [])
                          | Inl e2 \<Rightarrow> (Inl (ParserError e2), [])))
                | None \<Rightarrow>
                    (Inl UnparsableJSON, [WriteText (debug_bad_json (n + 1)) raw_json_text]))))"

section \<open>The extraction pipeline (main.py, lines 150 to 251)\<close>

text \<open>
  What the world does for one link: the outcome of \<open>requests.get\<close> at each attempt,
  and of \<open>generate_content\<close> at each attempt of the first call and of the call with
  the stricter instruction. A response of the model is its \<open>text\<close> (\<open>None\<close> when the
  attribute is missing or \<open>None\<close>).
\<close>

record link_world =
  get :: "nat \<Rightarrow> (fetch_error, response) outcome"
  generate :: "nat \<Rightarrow> (api_error, string option) outcome"
  generate_strict :: "nat \<Rightarrow> (api_error, string option) outcome"

text \<open>Lines 240 to 245: the validation, and what \<open>extend\<close> will add.\<close>

definition validate :: "json \<Rightarrow> link_error + json list" where
  "validate new_data =
     (case new_data of
        JArr items \<Rightarrow> if length items \<noteq> 1 then Inl ShapeError else Inr items
      | _ \<Rightarrow> Inl ShapeError)"

text \<open>Lines 205 to 245, from the response text on.\<close>

definition parse_response ::
  "parser \<Rightarrow> parser \<Rightarrow> nat \<Rightarrow> string \<Rightarrow> string option
     \<Rightarrow> (link_error + json list) \<times> 'f effect list" where
  "parse_response json_loads json_repair_loads n page_text text =
     (let raw_json_text = strip (case text of None \<Rightarrow> '''' | Some t \<Rightarrow> t)
      in if raw_json_text = []
         then (Inl EmptyResponse, [WriteText (debug_empty_response (n + 1)) page_text])
         else
           (case recover_json json_loads json_repair_loads n raw_json_text of
              (Inl e, effs) \<Rightarrow> (Inl e, effs)
            | (Inr new_data, effs) \<Rightarrow> (validate new_data, effs)))"

text \<open>
  The body of the \<open>try\<close> of line 153. \<open>get_text\<close> is
  \<open>BeautifulSoup(_, "html.parser").get_text(separator="\n", strip=True)\<close>. A retry
  loop that falls through returns \<open>None\<close>, on which the next attribute access raises.
\<close>

definition process_link ::
  "(string \<Rightarrow> string) \<Rightarrow> parser \<Rightarrow> parser \<Rightarrow> link_world \<Rightarrow> string \<Rightarrow> nat
     \<Rightarrow> (link_error + json list) \<times> 'f effect list" where
  "process_link get_text json_loads json_repair_loads w link n =
     (case main_fetch_page_with_retries (get w) link 4 of
        (Raised e, effs1) \<Rightarrow> (Inl (FetchError e), effs1)
      | (FellThrough, effs1) \<Rightarrow> (Inl AttributeError, effs1)
      | (Returned page, effs1) \<Rightarrow>
          (let page_text = take 285000 (get_text (content page))
           in case call_model_with_retries (generate w) False 4 2 of
                (Raised e, effs2) \<Rightarrow> (Inl (InferenceError e), effs1 @ effs2)
              | (response, effs2) \<Rightarrow>
                  (let text = (case response of Returned t \<Rightarrow> t | _ \<Rightarrow> None)
                   in if text = None \<or> text = Some []
                      then
                        (let effs3 = [WriteText (debug_empty_response (n + 1)) page_text]
                         in case call_model_with_retries (generate_strict w) True 1 2 of
                              (Raised e, effs4) \<Rightarrow>
                                (Inl EmptyAfterRetry, effs1 @ effs2 @ effs3 @ effs4)
                            | (FellThrough, effs4) \<Rightarrow>
                                (Inl AttributeError, effs1 @ effs2 @ effs3 @ effs4)
                            | (Returned text2, effs4) \<Rightarrow>
                                (case parse_response json_loads json_repair_loads n page_text text2 of
                                   (res, effs5) \<Rightarrow> (res, effs1 @ effs2 @ effs3 @ effs4 @ effs5)))
                      else
                        (case parse_response json_loads json_repair_loads n page_text text of
                           (res, effs5) \<Rightarrow> (res, effs1 @ effs2 @ effs5)))))"

text \<open>
  The loop of line 150: \<open>i\<close> numbers the links, \<open>all_new_data\<close> is the batch so far. A
  link that fails is skipped (line 251).
\<close>

fun process_links ::
  "(string \<Rightarrow> string) \<Rightarrow> parser \<Rightarrow> parser \<Rightarrow> (nat \<Rightarrow> link_world) \<Rightarrow> nat \<Rightarrow> string list
     \<Rightarrow> json list \<Rightarrow> json list \<times> 'f effect list" where
  "process_links get_text json_loads json_repair_loads worlds i [] all_new_data =
     (all_new_data, [])"
| "process_links get_text json_loads json_repair_loads worlds i (link # rest) all_new_data =
     (case process_link get_text json_loads json_repair_loads (worlds i) link (length all_new_data) of
        (Inl e, effs) \<Rightarrow>
          (case process_links get_text json_loads json_repair_loads worlds (Suc i) rest all_new_data of
             (final, effs') \<Rightarrow> (final, effs @ effs'))
      | (Inr new_data, effs) \<Rightarrow>
          (case process_links get_text json_loads json_repair_loads worlds (Suc i) rest
                  (all_new_data @ new_data) of
             (final, effs') \<Rightarrow> (final, effs @ effs')))"

section \<open>The tabular sink (main.py, lines 255 to 283)\<close>

text \<open>
  A data frame: its column labels and its rows, each row with one cell for each column
  (\<open>None\<close> for a missing value). \<open>pd_concat\<close> is
  \<open>pd.concat([a, b], ignore_index=True)\<close> of the pandas library: the columns of \<open>a\<close>,
  then those of \<open>b\<close> that \<open>a\<close> lacks; the rows of \<open>a\<close>, then those of \<open>b\<close>, each
  with its cells under the new columns. The labels of one frame are taken to be
  distinct, as \<open>read_excel\<close> and dictionary keys make them.
\<close>

type_synonym cell = "string option"

record frame =
  columns :: "string list"
  rows :: "cell list list"

definition reindex :: "string list \<Rightarrow> string list \<Rightarrow> cell list \<Rightarrow> cell list" where
  "reindex old new row =
     map (\<lambda>c. case map_of (zip old row) c of None \<Rightarrow> None | Some v \<Rightarrow> v) new"

definition pd_concat :: "frame \<Rightarrow> frame \<Rightarrow> frame" where
  "pd_concat a b =
     (let cols = columns a @ filter (\<lambda>c. c \<notin> set (columns a)) (columns b)
      in \<lparr>columns = cols,
          rows = map (reindex (columns a) cols) (rows a) @ map (reindex (columns b) cols) (rows b)\<rparr>)"

definition expected_columns :: "string list" where
  "expected_columns =
     [''Case Number'', ''Case Title'', ''Facts'', ''Decision'', ''Ruling'', ''Verdict'']"

text \<open>
  The output file, when it exists: whether it can be opened for appending (line 104
  raises \<open>PermissionError\<close> otherwise), and what \<open>pd.read_excel\<close> returns (\<open>None\<close>
  when it raises).
\<close>

record excel_file =
  appendable :: bool
  read_excel :: "frame option"

text \<open>Lines 262 to 280: the frame that is written.\<close>

definition merge_and_write :: "excel_file option \<Rightarrow> frame \<Rightarrow> frame" where
  "merge_and_write existing df_new =
     (case existing of
        Some file \<Rightarrow>
          (case read_excel file of
             Some df_existing \<Rightarrow>
               if length (rows df_existing) > 0 \<and> columns df_existing \<noteq> expected_columns
               then df_new
               else pd_concat df_existing df_new
           | None \<Rightarrow> df_new)
      | None \<Rightarrow> df_new)"

section \<open>The run (main.py, generate\_and\_append\_to\_excel)\<close>

text \<open>
  \<open>load_links\<close> takes the lines of the file (\<open>None\<close> when the file does not exist) and
  returns the links together with what it prints.
\<close>

definition load_links :: "string \<Rightarrow> string list option \<Rightarrow> string list \<times> string list" where
  "load_links links_path file =
     (case file of
        None \<Rightarrow> ([], [''Warning: Links file '' @ [CHR 0x27] @ links_path @ [CHR 0x27] @ '' not found. Using empty list.''])
      | Some lines \<Rightarrow> (map strip (filter (\<lambda>line. strip line \<noteq> []) lines), []))"

text \<open>\<open>os.path.join(a, b)\<close> on a POSIX system, for a non-empty \<open>a\<close> without a final slash.\<close>

definition os_path_join :: "string \<Rightarrow> string \<Rightarrow> string" where
  "os_path_join a b = (if startswith b ''/'' then b else a @ ''/'' @ b)"

record world =
  links_txt :: "string list option"
  filename_input :: string
  excel :: "excel_file option"
  api_key :: "string option"
  client_ok :: bool
  link_worlds :: "nat \<Rightarrow> link_world"

text \<open>
  The effects of one run. \<open>DataFrame\<close> is the constructor of pandas, applied to the
  batch.
\<close>

definition generate_and_append_to_excel ::
  "(string \<Rightarrow> string) \<Rightarrow> parser \<Rightarrow> parser \<Rightarrow> (json list \<Rightarrow> frame) \<Rightarrow> world \<Rightarrow> frame effect list" where
  "generate_and_append_to_excel get_text json_loads json_repair_loads DataFrame w =
     (let LINKS_TO_PROCESS = fst (load_links ''links.txt'' (links_txt w))
      in if LINKS_TO_PROCESS = [] then []
         else
           (let EXCEL_FILENAME = os_path_join ''excel_files'' (strip (filename_input w) @ ''.xlsx'')
            in if (case excel w of Some file \<Rightarrow> \<not> appendable file | None \<Rightarrow> False) then []
               else if api_key w = None \<or> api_key w = Some [] then []
               else if \<not> client_ok w then []
               else
                 (case process_links get_text json_loads json_repair_loads (link_worlds w) 0
                         LINKS_TO_PROCESS [] of
                    (all_new_data, effs) \<Rightarrow>
                      if all_new_data = [] then effs
                      else effs @ [WriteExcel EXCEL_FILENAME
                                     (merge_and_write (excel w) (DataFrame all_new_data))])))"

section \<open>Properties\<close>

lemma is_transient_iff:
  "is_transient e \<longleftrightarrow> extract_status e \<in> Some ` {429, 500, 502, 503, 504}"
  by (auto simp: is_transient_def TRANSIENT_STATUS_def split: option.splits)

subsection \<open>Retry loops\<close>

lemma retried_Suc:
  "retried strict d (Suc n) = Generate strict # Sleep d # retried strict (d * 2) n"
proof -
  have "[0..<Suc n] = 0 # map Suc [0..<n]"
    by (simp add: upt_conv_Cons map_Suc_upt del: upt_Suc)
  then show ?thesis
    by (simp add: retried_def comp_def mult.assoc del: upt_Suc)
qed

lemma call_model_loop_trace:
  assumes "a0 + left = Suc m" "a0 \<le> n" "n \<le> m"
    and "\<forall>a. a0 \<le> a \<and> a < n \<longrightarrow> \<not> call_stops gen m a"
    and "call_stops gen m n"
  shows "call_model_loop gen strict m left a0 d =
           (result_of (gen n), retried strict d (n - a0) @ [Generate strict])"
  using assms
proof (induction left arbitrary: a0 d)
  case 0
  then show ?case by simp
next
  case (Suc left)
  show ?case
  proof (cases "a0 = n")
    case True
    with Suc.prems(5) show ?thesis
      by (auto simp: call_stops_def result_of_def retried_def is_transient_iff
               split: outcome.splits)
  next
    case False
    with Suc.prems have lt: "a0 < n" by simp
    with Suc.prems(4) have ns: "\<not> call_stops gen m a0" by simp
    then obtain e where e: "gen a0 = Raises e" "is_transient e" "a0 \<noteq> m"
      by (auto simp: call_stops_def is_transient_iff split: outcome.splits)
    have p1: "a0 + 1 + left = Suc m" using Suc.prems(1) by simp
    have p2: "a0 + 1 \<le> n" using lt by simp
    have p4: "\<forall>a. a0 + 1 \<le> a \<and> a < n \<longrightarrow> \<not> call_stops gen m a"
      using Suc.prems(4) by simp
    note ih = Suc.IH [of "a0 + 1" "d * 2", OF p1 p2 Suc.prems(3) p4 Suc.prems(5)]
    from lt have "n - a0 = Suc (n - (a0 + 1))" by simp
    then show ?thesis using e ih by (simp add: retried_Suc)
  qed
qed

text \<open>
  C1. Let attempt \<open>n\<close> be the first that ends the loop: it returns, or it raises an error
  whose extracted status is not one of 429, 500, 502, 503, 504 (also when no status can be
  extracted), or it raises at the last attempt. Every attempt before it raised with a
  status of that set while attempts remained, and each of them is followed by one sleep,
  with the delay doubled each time, and by the next attempt. The outcome of attempt \<open>n\<close>
  is the outcome of the call, and nothing follows it: no sleep and no further attempt.
\<close>

theorem call_model_with_retries_transient_only:
  assumes "1 \<le> n" and "n \<le> max_retries"
    and "\<forall>a. 1 \<le> a \<and> a < n \<longrightarrow> \<not> call_stops gen max_retries a"
    and "call_stops gen max_retries n"
  shows "call_model_with_retries gen strict max_retries initial_delay =
           (result_of (gen n), retried strict initial_delay (n - 1) @ [Generate strict :: 'f effect])"
proof -
  have "1 + max_retries = Suc max_retries" by simp
  from call_model_loop_trace [OF this assms(1) assms(2) assms(3) assms(4)]
  show ?thesis by (simp add: call_model_with_retries_def)
qed

theorem call_model_with_retries_transient_only_witness:
  "call_model_with_retries
     (\<lambda>a. if a < 3 then Raises \<lparr>code_attr = Some (IntOf 503), args_code = None\<rparr>
          else (Raises \<lparr>code_attr = None, args_code = Some (IntOf 404)\<rparr>
                  :: (api_error, string option) outcome))
     False 4 2
   = (Raised \<lparr>code_attr = None, args_code = Some (IntOf 404)\<rparr>,
      [Generate False, Sleep 2, Generate False, Sleep 4, Generate False :: unit effect])"
proof -
  let ?gen = "\<lambda>a::nat. if a < 3 then Raises \<lparr>code_attr = Some (IntOf 503), args_code = None\<rparr>
          else (Raises \<lparr>code_attr = None, args_code = Some (IntOf 404)\<rparr> :: (api_error, string option) outcome)"
  have h1: "(1::nat) \<le> 3" and h2: "(3::nat) \<le> 4" by simp_all
  have h3: "\<forall>a. 1 \<le> a \<and> a < 3 \<longrightarrow> \<not> call_stops ?gen 4 a"
    by (simp add: call_stops_def extract_status_def)
  have h4: "call_stops ?gen 4 3"
    by (simp add: call_stops_def extract_status_def)
  have r: "retried False 2 (3 - 1) = [Generate False, Sleep 2, Generate False, Sleep 4 :: unit effect]"
    by (simp add: retried_def upt_rec numeral_2_eq_2)
  show ?thesis
    using call_model_with_retries_transient_only [OF h1 h2 h3 h4, of False 2, where ?'f = unit] r
    by (simp add: result_of_def)
qed

subsection \<open>Link extraction\<close>

lemma dedup_disjoint: "set (dedup seen ys) \<inter> seen = {}"
  by (induction ys arbitrary: seen) auto

lemma dedup_distinct: "distinct (dedup seen ys)"
proof (induction ys arbitrary: seen)
  case Nil
  show ?case by simp
next
  case (Cons y ys)
  have "y \<notin> set (dedup (insert y seen) ys)"
    using dedup_disjoint [of "insert y seen" ys] by auto
  with Cons show ?case by simp
qed

lemma dedup_indices:
  "dedup seen ys =
     map (\<lambda>i. ys ! i) (filter (\<lambda>i. ys ! i \<notin> seen \<union> set (take i ys)) [0..<length ys])"
proof (induction ys arbitrary: seen)
  case Nil
  show ?case by simp
next
  case (Cons y ys)
  have upt: "[0..<Suc (length ys)] = 0 # map Suc [0..<length ys]"
    by (simp add: upt_conv_Cons map_Suc_upt del: upt_Suc)
  have same: "filter (\<lambda>x. ys ! x \<noteq> y \<and> ys ! x \<notin> seen \<and> ys ! x \<notin> set (take x ys)) [0..<length ys]
            = filter (\<lambda>x. ys ! x \<notin> seen \<and> ys ! x \<notin> set (take x ys)) [0..<length ys]"
    if "y \<in> seen"
    using that by (intro filter_cong) auto
  show ?case
    by (auto simp: upt Cons.IH filter_map comp_def same conj_ac simp del: upt_Suc)
qed

lemma first_occurrences_dedup: "first_occurrences ys = dedup {} ys"
  by (simp add: first_occurrences_def dedup_indices)

lemma candidates_Cons:
  "candidates body (h # hs) =
     (case body h of Some (Some u) \<Rightarrow> [u] | _ \<Rightarrow> []) @ candidates body hs"
  by (simp add: candidates_def)

lemma links_loop_dedup:
  "links_loop body hrefs seen ordered =
     (if \<forall>h \<in> set hrefs. body h \<noteq> None
      then Some (ordered @ dedup seen (candidates body hrefs)) else None)"
proof (induction hrefs arbitrary: seen ordered)
  case Nil
  show ?case by (simp add: candidates_def)
next
  case (Cons h hs)
  show ?case
    by (cases "body h") (auto simp: Cons.IH candidates_Cons split: option.splits)
qed

text \<open>
  C6. \<open>extract_links\<close> returns, unless a library call raises, the absolute URLs that
  pass the loop body, each once, at the place of its first occurrence among the
  document's hyperlinks; no two strings of the result are equal.
\<close>

theorem extract_links_first_occurrences:
  "extract_links find_hrefs join parse url resp filter_regex =
     (let body = resolve_href join parse filter_regex (rstrip (\<lambda>c. c = CHR ''/'') url);
          hrefs = find_hrefs (content resp)
      in if \<forall>h \<in> set hrefs. body h \<noteq> None
         then Some (first_occurrences (candidates body hrefs)) else None)
   \<and> distinct (first_occurrences
        (candidates (resolve_href join parse filter_regex (rstrip (\<lambda>c. c = CHR ''/'') url))
           (find_hrefs (content resp))))"
  by (simp add: extract_links_def links_loop_dedup first_occurrences_dedup dedup_distinct Let_def)


theorem extract_links_first_occurrences_witness:
  "extract_links (\<lambda>c. [''c'', '' c '', ''#top'', ''d'', ''/a/b/c'']) urljoin (\<lambda>u. urlparse u '''')
       ''http://h/a/b'' \<lparr>status_code = 200, content = ''''\<rparr> None
     = Some [''http://h/a/b/c'', ''http://h/a/b/d'']
   \<and> distinct [''http://h/a/b/c'', ''http://h/a/b/d'']"
proof -
  let ?hrefs = "[''c'', '' c '', ''#top'', ''d'', ''/a/b/c'']"
  let ?body = "resolve_href urljoin (\<lambda>u. urlparse u '''') None (rstrip (\<lambda>c. c = CHR ''/'') ''http://h/a/b'')"
  have ok: "\<forall>h \<in> set ?hrefs. ?body h \<noteq> None"
    by code_simp
  have ev: "first_occurrences (candidates ?body ?hrefs) = [''http://h/a/b/c'', ''http://h/a/b/d'']"
    by code_simp
  show ?thesis
    using extract_links_first_occurrences
            [of "\<lambda>c. ?hrefs" urljoin "\<lambda>u. urlparse u ''''" "''http://h/a/b''"
                "\<lparr>status_code = 200, content = ''''\<rparr>" None]
          ok
    unfolding Let_def ev by simp
qed

end
